theory Spec2Isabelle
  imports Complex_Main "HOL-Library.Word"
begin

section \<open>Data of server.js\<close>

text \<open>
  The server is one Express application with two routes. Everything it calls (the
  transcoder, the filesystem, the WAV parser, the speech model, the clock) is outside the
  repository; each such call is a field of the record \<open>env\<close> below, so that every theorem
  holds for whatever those collaborators answer. The model covers one request handled from
  entry to exit, with every awaited call settling.
\<close>

type_synonym path = string
type_synonym buffer = "8 word list"
type_synonym samples = "real list"

text \<open>A thrown JavaScript \<open>Error\<close>; the handler only ever reads its \<open>message\<close>.\<close>

datatype js_error = JsError (message: string)

text \<open>\<open>req.file\<close> as multer's disk storage fills it in (the fields the handler reads).\<close>

record multer_file =
  originalname :: string
  fsize :: nat
  fpath :: path

text \<open>\<open>req.file\<close> is \<open>undefined\<close> (here \<open>None\<close>) when the form had no \<open>audio\<close> file.\<close>

record request =
  req_file :: "multer_file option"

text \<open>A JSON object with string values, as \<open>res.json\<close> sends it, and the status code.\<close>

type_synonym json = "(string \<times> string) list"

record response =
  status :: nat
  body :: json

text \<open>
  The fluent-ffmpeg command object: \<open>ffmpeg(inputPath)\<close> creates it, each chained method
  sets one option, \<open>save\<close> sets the output and starts the process.
\<close>

record ffmpeg_command =
  cmd_input :: path
  cmd_audioChannels :: "nat option"
  cmd_audioFrequency :: "nat option"
  cmd_audioCodec :: "string option"
  cmd_format :: "string option"
  cmd_output :: "path option"

text \<open>
  How a started transcoder settles: the \<open>end\<close> event, or the \<open>error\<close> event with its error;
  the flag says whether a (partial) output file was left behind.
\<close>

datatype ffmpeg_result = End | Error js_error bool

text \<open>Console output: each \<open>console.log\<close> / \<open>console.error\<close> call of the handler.\<close>

datatype log_entry =
    LogReceived string nat
  | LogTranscribing
  | LogTranscription string
  | LogError js_error

text \<open>Calls that leave the process, in the order they are made.\<close>

datatype call =
    FfmpegRun ffmpeg_command
  | ReadFile path
  | WavDecode buffer
  | Transcribe "samples option"
  | ExistsSync path
  | UnlinkSync path

text \<open>
  The collaborators. \<open>transcriber\<close> is the module-level variable of that name as the
  handler finds it when line 96 runs: \<open>None\<close> while the asynchronous model load has not
  assigned it. \<open>unlinkSync_error\<close> gives the error \<open>fs.unlinkSync\<close> throws for a path, if any.
\<close>

record env =
  now :: nat
  ffmpeg_exec :: "ffmpeg_command \<Rightarrow> ffmpeg_result"
  readFileSync :: "path \<Rightarrow> js_error + buffer"
  wav_decode :: "buffer \<Rightarrow> js_error + samples list"
  transcriber :: "(samples option \<Rightarrow> js_error + string) option"
  unlinkSync_error :: "path \<Rightarrow> js_error option"

text \<open>
  What the handler changes while it runs: its local \<open>tempFiles\<close>, the files that exist,
  the console, the outside calls made so far, and the response once it is sent.
\<close>

record hstate =
  tempFiles :: "path list"
  fs :: "path set"
  console_out :: "log_entry list"
  calls :: "call list"
  sent :: "response option"

section \<open>Helpers of server.js\<close>

subsection \<open>Template literal and \<open>path.join\<close>\<close>

text \<open>The character of a decimal digit; only ever applied below ten.\<close>

definition digit_char :: "nat \<Rightarrow> char" where
  "digit_char d = ''0123456789'' ! d"

text \<open>A non-negative integer in a template literal: its decimal digits.\<close>

function show_nat :: "nat \<Rightarrow> string" where
  "show_nat n = (if n < 10 then [digit_char n] else show_nat (n div 10) @ [digit_char (n mod 10)])"
  by pat_completeness auto
termination
  by (relation "measure id") auto

declare show_nat.simps [simp del]

text \<open>\<open>path.join\<close> on two plain segments (POSIX separator).\<close>

definition path_join :: "path \<Rightarrow> path \<Rightarrow> path" where
  "path_join a b = a @ ''/'' @ b"

text \<open>Lines 79 to 82, as a function of the value \<open>Date.now()\<close> returned.\<close>

definition wavFilePath :: "nat \<Rightarrow> path" where
  "wavFilePath t = path_join ''uploads'' (''converted_'' @ show_nat t @ ''.wav'')"

subsection \<open>State updates\<close>

definition push :: "path \<Rightarrow> hstate \<Rightarrow> hstate" where
  "push p s = s\<lparr>tempFiles := tempFiles s @ [p]\<rparr>"

definition console :: "log_entry \<Rightarrow> hstate \<Rightarrow> hstate" where
  "console e s = s\<lparr>console_out := console_out s @ [e]\<rparr>"

definition called :: "call \<Rightarrow> hstate \<Rightarrow> hstate" where
  "called c s = s\<lparr>calls := calls s @ [c]\<rparr>"

text \<open>\<open>res.status(n).json(b)\<close>; plain \<open>res.json(b)\<close> is the same with status 200.\<close>

definition respond :: "nat \<Rightarrow> json \<Rightarrow> hstate \<Rightarrow> hstate" where
  "respond n b s = s\<lparr>sent := Some \<lparr>status = n, body = b\<rparr>\<rparr>"

subsection \<open>convertAudioToWav\<close>

definition ffmpeg :: "path \<Rightarrow> ffmpeg_command" where
  "ffmpeg inputPath = \<lparr>cmd_input = inputPath, cmd_audioChannels = None,
     cmd_audioFrequency = None, cmd_audioCodec = None, cmd_format = None, cmd_output = None\<rparr>"

definition audioChannels :: "nat \<Rightarrow> ffmpeg_command \<Rightarrow> ffmpeg_command" where
  "audioChannels n c = c\<lparr>cmd_audioChannels := Some n\<rparr>"

definition audioFrequency :: "nat \<Rightarrow> ffmpeg_command \<Rightarrow> ffmpeg_command" where
  "audioFrequency n c = c\<lparr>cmd_audioFrequency := Some n\<rparr>"

definition audioCodec :: "string \<Rightarrow> ffmpeg_command \<Rightarrow> ffmpeg_command" where
  "audioCodec x c = c\<lparr>cmd_audioCodec := Some x\<rparr>"

definition format :: "string \<Rightarrow> ffmpeg_command \<Rightarrow> ffmpeg_command" where
  "format x c = c\<lparr>cmd_format := Some x\<rparr>"

definition save :: "path \<Rightarrow> ffmpeg_command \<Rightarrow> ffmpeg_command" where
  "save outputPath c = c\<lparr>cmd_output := Some outputPath\<rparr>"

text \<open>The command lines 42 to 49 build, in the order of the chain.\<close>

definition convert_command :: "path \<Rightarrow> path \<Rightarrow> ffmpeg_command" where
  "convert_command inputPath outputPath =
     save outputPath (format ''wav'' (audioCodec ''pcm_s16le''
       (audioFrequency 16000 (audioChannels 1 (ffmpeg inputPath)))))"

text \<open>
  The promise of \<open>convertAudioToWav\<close>, awaited: the process is started on the command; on
  \<open>end\<close> the promise resolves with the output path and the output file exists; on \<open>error\<close> it
  rejects with the error. The transcoder writes nowhere but to its output path.
\<close>

definition convertAudioToWav :: "env \<Rightarrow> path \<Rightarrow> path \<Rightarrow> hstate \<Rightarrow> (js_error + path) \<times> hstate" where
  "convertAudioToWav e inputPath outputPath s =
     (let c = convert_command inputPath outputPath; s' = called (FfmpegRun c) s
      in case ffmpeg_exec e c of
           End \<Rightarrow> (Inr outputPath, s'\<lparr>fs := insert outputPath (fs s')\<rparr>)
         | Error err left \<Rightarrow>
             (Inl err, if left then s'\<lparr>fs := insert outputPath (fs s')\<rparr> else s'))"

subsection \<open>readFileBuffer and decodeWavToFloat32\<close>

definition readFileBuffer :: "env \<Rightarrow> path \<Rightarrow> hstate \<Rightarrow> (js_error + buffer) \<times> hstate" where
  "readFileBuffer e filepath s = (readFileSync e filepath, called (ReadFile filepath) s)"

text \<open>
  \<open>wav.decode\<close> throws on a malformed buffer; \<open>decoded.channelData[0]\<close> is \<open>undefined\<close>
  (here \<open>None\<close>) when there is no channel, and nothing is thrown then.
\<close>

definition decodeWavToFloat32 :: "env \<Rightarrow> buffer \<Rightarrow> hstate \<Rightarrow> (js_error + samples option) \<times> hstate" where
  "decodeWavToFloat32 e b s =
     (case wav_decode e b of
        Inl err \<Rightarrow> (Inl err, called (WavDecode b) s)
      | Inr channelData \<Rightarrow>
          (Inr (case channelData of [] \<Rightarrow> None | c # _ \<Rightarrow> Some c), called (WavDecode b) s))"

subsection \<open>Calling the model\<close>

text \<open>Calling a variable that holds \<open>undefined\<close> throws a \<open>TypeError\<close> with this message.\<close>

definition not_a_function :: "string \<Rightarrow> js_error" where
  "not_a_function name = JsError (name @ '' is not a function'')"

definition call_transcriber :: "env \<Rightarrow> samples option \<Rightarrow> hstate \<Rightarrow> (js_error + string) \<times> hstate" where
  "call_transcriber e audioData s =
     (case transcriber e of
        None \<Rightarrow> (Inl (not_a_function ''transcriber''), s)
      | Some model \<Rightarrow> (model audioData, called (Transcribe audioData) s))"

section \<open>The handler of POST /transcribe\<close>

text \<open>
  The handler is followed statement by statement: a run is the list of the states it
  passes through, each tagged with the source line just executed.
\<close>

datatype label = L66 | L70 | L73 | L76 | L83 | L85 | L88 | L91 | L93 | L96 | L98 | L100 | L104 | L111

type_synonym trace = "(label \<times> hstate) list"

definition cur :: "trace \<Rightarrow> hstate" where
  "cur tr = snd (last tr)"

definition step :: "label \<Rightarrow> (hstate \<Rightarrow> hstate) \<Rightarrow> trace \<Rightarrow> trace" where
  "step l f tr = tr @ [(l, f (cur tr))]"

text \<open>
  The \<open>try\<close> block, lines 69 to 100: the states passed through and the error thrown, if any.
  The early \<open>return\<close> of line 70 leaves the block without an error.
\<close>

definition try_block :: "env \<Rightarrow> request \<Rightarrow> trace \<Rightarrow> trace \<times> js_error option" where
  "try_block e req tr0 =
     (case req_file req of
        None \<Rightarrow> (step L70 (respond 400 [(''error'', ''No audio file provided'')]) tr0, None)
      | Some f \<Rightarrow>
          (let tr1 = step L73 (console (LogReceived (originalname f) (fsize f))) tr0;
               inputFilePath = fpath f;
               tr2 = step L76 (push inputFilePath) tr1;
               wavPath = wavFilePath (now e);
               tr3 = step L83 (push wavPath) tr2
           in case convertAudioToWav e inputFilePath wavPath (cur tr3) of
                (Inl err, s4) \<Rightarrow> (tr3 @ [(L85, s4)], Some err)
              | (Inr _, s4) \<Rightarrow>
                  (let tr4 = tr3 @ [(L85, s4)]
                   in case readFileBuffer e wavPath (cur tr4) of
                        (Inl err, s5) \<Rightarrow> (tr4 @ [(L88, s5)], Some err)
                      | (Inr wavBuffer, s5) \<Rightarrow>
                          (let tr5 = tr4 @ [(L88, s5)]
                           in case decodeWavToFloat32 e wavBuffer (cur tr5) of
                                (Inl err, s6) \<Rightarrow> (tr5 @ [(L91, s6)], Some err)
                              | (Inr audioData, s6) \<Rightarrow>
                                  (let tr6 = tr5 @ [(L91, s6)];
                                       tr7 = step L93 (console LogTranscribing) tr6
                                   in case call_transcriber e audioData (cur tr7) of
                                        (Inl err, s8) \<Rightarrow> (tr7 @ [(L96, s8)], Some err)
                                      | (Inr text, s8) \<Rightarrow>
                                          (let tr8 = tr7 @ [(L96, s8)];
                                               tr9 = step L98 (console (LogTranscription text)) tr8
                                           in (step L100 (respond 200 [(''text'', text)]) tr9,
                                               None)))))))"

text \<open>The \<open>catch\<close> block, lines 103 and 104.\<close>

definition catch_block :: "js_error \<Rightarrow> hstate \<Rightarrow> hstate" where
  "catch_block err s = respond 500 [(''error'', message err)] (console (LogError err) s)"

text \<open>
  \<open>fs.unlinkSync\<close>: throws the error the environment has for the path, else removes it.
\<close>

definition unlinkSync :: "env \<Rightarrow> path \<Rightarrow> hstate \<Rightarrow> (js_error + unit) \<times> hstate" where
  "unlinkSync e p s =
     (case unlinkSync_error e p of
        Some err \<Rightarrow> (Inl err, called (UnlinkSync p) s)
      | None \<Rightarrow> (Inr (), (called (UnlinkSync p) s)\<lparr>fs := fs s - {p}\<rparr>))"

text \<open>
  The body of the \<open>forEach\<close> callback, lines 108 to 110. The \<open>catch {}\<close> has no body: an
  error thrown by \<open>unlinkSync\<close> ends the callback and nothing else happens.
\<close>

definition cleanup_file :: "env \<Rightarrow> hstate \<Rightarrow> path \<Rightarrow> hstate" where
  "cleanup_file e s p =
     (let s1 = called (ExistsSync p) s
      in if p \<in> fs s1
         then (case unlinkSync e p s1 of (Inl err, s2) \<Rightarrow> s2 | (Inr _, s2) \<Rightarrow> s2)
         else s1)"

text \<open>The \<open>finally\<close> block: \<open>tempFiles.forEach\<close>.\<close>

definition finally_block :: "env \<Rightarrow> hstate \<Rightarrow> hstate" where
  "finally_block e s = foldl (cleanup_file e) s (tempFiles s)"

text \<open>Handler entry: line 66 sets \<open>tempFiles\<close> to the empty array.\<close>

definition entry :: "path set \<Rightarrow> hstate" where
  "entry files = \<lparr>tempFiles = [], fs = files, console_out = [], calls = [], sent = None\<rparr>"

text \<open>
  A whole run on the files present at handler entry: \<open>try\<close>, \<open>catch\<close> if something was
  thrown, then \<open>finally\<close>.
\<close>

definition run :: "env \<Rightarrow> request \<Rightarrow> path set \<Rightarrow> trace" where
  "run e req files =
     (case try_block e req [(L66, entry files)] of
        (tr, None) \<Rightarrow> step L111 (finally_block e) tr
      | (tr, Some err) \<Rightarrow> step L111 (finally_block e) (step L104 (catch_block err) tr))"

text \<open>The state in which the handler exits.\<close>

definition transcribe_handler :: "env \<Rightarrow> request \<Rightarrow> path set \<Rightarrow> hstate" where
  "transcribe_handler e req files = cur (run e req files)"

section \<open>The route POST /transcribe\<close>

text \<open>
  Line 65 registers two functions on the route: multer's \<open>upload.single('audio')\<close> and the
  handler. Neither multer nor Express is part of the repository; what follows is their
  documented behaviour, as far as line 21 to 24 and line 65 use it. The middleware reads the
  parts of the multipart form in order. A file part under any field other than the one
  named, or a second file under it, ends the request with the error
  \<open>LIMIT_UNEXPECTED_FILE\<close>; a file larger than \<open>limits.fileSize\<close> ends it with
  \<open>LIMIT_FILE_SIZE\<close>; otherwise the file is stored under \<open>dest\<close> with a generated name
  and \<open>req.file\<close> describes it. A form without a file part leaves \<open>req.file\<close> undefined.
\<close>

datatype form_part =
    FilePart string string nat
  | TextPart string string

datatype multer_code = LIMIT_FILE_SIZE | LIMIT_UNEXPECTED_FILE

text \<open>A \<open>MulterError\<close>: its code and the field it arose on. It has no \<open>status\<close> property.\<close>

datatype multer_error = MulterError multer_code string

text \<open>Line 23.\<close>

definition fileSize :: nat where
  "fileSize = 20 * 1024 * 1024"

text \<open>Line 22 and the name multer generates for the stored file.\<close>

definition stored_path :: "string \<Rightarrow> path" where
  "stored_path generated = path_join ''uploads'' generated"

fun single :: "string \<Rightarrow> string \<Rightarrow> multer_file option \<Rightarrow> form_part list
    \<Rightarrow> multer_error + multer_file option" where
  "single name generated stored [] = Inr stored"
| "single name generated stored (TextPart k v # parts) = single name generated stored parts"
| "single name generated stored (FilePart field orig bytes # parts) =
     (if field = name \<and> stored = None
      then (if fileSize < bytes then Inl (MulterError LIMIT_FILE_SIZE field)
            else single name generated
                   (Some \<lparr>originalname = orig, fsize = bytes, fpath = stored_path generated\<rparr>)
                   parts)
      else Inl (MulterError LIMIT_UNEXPECTED_FILE field))"

text \<open>
  What the route answers. When the middleware passes an error on, Express skips the handler;
  \<open>server.js\<close> registers no error-handling middleware, so Express's built-in error handler
  answers: an HTML page, with the error's \<open>status\<close> when it has one in the range of error
  codes and 500 otherwise. Only the status of that page is kept here.
\<close>

datatype route_result = Handled hstate | DefaultErrorPage nat

definition builtin_error_status :: "nat option \<Rightarrow> nat" where
  "builtin_error_status st =
     (case st of None \<Rightarrow> 500 | Some n \<Rightarrow> if 400 \<le> n \<and> n < 600 then n else 500)"

text \<open>
  The route on a multipart form, the generated file name and the files on disk before the
  request. An accepted upload is on disk when the handler starts.
\<close>

definition post_transcribe :: "env \<Rightarrow> string \<Rightarrow> form_part list \<Rightarrow> path set \<Rightarrow> route_result" where
  "post_transcribe e generated form files =
     (case single ''audio'' generated None form of
        Inl err \<Rightarrow> DefaultErrorPage (builtin_error_status None)
      | Inr None \<Rightarrow> Handled (transcribe_handler e \<lparr>req_file = None\<rparr> files)
      | Inr (Some f) \<Rightarrow>
          Handled (transcribe_handler e \<lparr>req_file = Some f\<rparr> (insert (fpath f) files)))"

section \<open>The handler of GET /health\<close>

text \<open>Line 117: \<open>res.json\<close> with the default status; neither argument is read.\<close>

definition health_handler :: "env \<Rightarrow> request \<Rightarrow> response" where
  "health_handler e req = \<lparr>status = 200, body = [(''status'', ''ok''), (''model'', ''whisper-tiny.en'')]\<rparr>"

section \<open>Example environments and requests\<close>

text \<open>
  Concrete collaborators and requests on which the theorems below are instantiated. In
  \<open>env_ok\<close> every call succeeds and the model is loaded; the others differ from it in one field.
\<close>

definition env_ok :: env where
  "env_ok = \<lparr>now = 1700000000000, ffmpeg_exec = (\<lambda>c. End), readFileSync = (\<lambda>p. Inr [82, 73, 70, 70]),
     wav_decode = (\<lambda>b. Inr [[0, 1]]), transcriber = Some (\<lambda>a. Inr ''hello''),
     unlinkSync_error = (\<lambda>p. None)\<rparr>"

definition env_conv_fail :: env where
  "env_conv_fail = env_ok\<lparr>ffmpeg_exec := (\<lambda>c. Error (JsError ''ffmpeg exited with code 1'') True)\<rparr>"

definition env_not_loaded :: env where
  "env_not_loaded = env_ok\<lparr>transcriber := None\<rparr>"

definition env_eperm :: env where
  "env_eperm = env_ok\<lparr>unlinkSync_error := (\<lambda>p. Some (JsError ''EPERM: operation not permitted''))\<rparr>"

definition env_upload_locked :: env where
  "env_upload_locked = env_ok\<lparr>unlinkSync_error :=
     (\<lambda>p. if p = ''uploads/ab12'' then Some (JsError ''EPERM: operation not permitted'') else None)\<rparr>"

definition form_other_field :: "form_part list" where
  "form_other_field = [FilePart ''file'' ''a.mp3'' 3]"

definition form_too_large :: "form_part list" where
  "form_too_large = [FilePart ''audio'' ''big.wav'' 20971521]"

definition form_text_only :: "form_part list" where
  "form_text_only = [TextPart ''language'' ''en'']"

definition upload_a :: multer_file where
  "upload_a = \<lparr>originalname = ''a.mp3'', fsize = 3, fpath = ''uploads/ab12''\<rparr>"

definition upload_b :: multer_file where
  "upload_b = \<lparr>originalname = ''b.ogg'', fsize = 5, fpath = ''uploads/cd34''\<rparr>"

definition req_a :: request where
  "req_a = \<lparr>req_file = Some upload_a\<rparr>"

definition req_b :: request where
  "req_b = \<lparr>req_file = Some upload_b\<rparr>"

definition req_none :: request where
  "req_none = \<lparr>req_file = None\<rparr>"

section \<open>Basic facts\<close>

lemma cur_snoc [simp]: "cur (tr @ [(l, s)]) = s"
  by (simp add: cur_def)

lemma cur_single [simp]: "cur [(l, s)] = s"
  by (simp add: cur_def)

lemma cur_step [simp]: "cur (step l f tr) = f (cur tr)"
  by (simp add: step_def)

text \<open>Unfolding a whole run.\<close>

lemmas handler_defs = transcribe_handler_def run_def try_block_def entry_def step_def cur_def
  convertAudioToWav_def readFileBuffer_def decodeWavToFloat32_def call_transcriber_def
  finally_block_def cleanup_file_def unlinkSync_def catch_block_def
  called_def push_def console_def respond_def Let_def

text \<open>The same without the cleanup, which the lemmas below describe.\<close>

lemmas pipeline_defs = transcribe_handler_def run_def try_block_def entry_def step_def cur_def
  convertAudioToWav_def readFileBuffer_def decodeWavToFloat32_def call_transcriber_def
  catch_block_def called_def push_def console_def respond_def Let_def

lemmas example_defs = env_ok_def env_conv_fail_def env_not_loaded_def env_eperm_def
  env_upload_locked_def upload_a_def upload_b_def req_a_def req_b_def req_none_def

lemmas path_defs = wavFilePath_def path_join_def show_nat.simps digit_char_def

subsection \<open>The cleanup loop\<close>

lemma cleanup_file_sent: "sent (cleanup_file e s p) = sent s"
  by (simp add: cleanup_file_def unlinkSync_def called_def Let_def split: option.splits)

lemma cleanup_file_log: "console_out (cleanup_file e s p) = console_out s"
  by (simp add: cleanup_file_def unlinkSync_def called_def Let_def split: option.splits)

lemma cleanup_file_tempFiles: "tempFiles (cleanup_file e s p) = tempFiles s"
  by (simp add: cleanup_file_def unlinkSync_def called_def Let_def split: option.splits)

lemma cleanup_file_fs:
  "fs (cleanup_file e s p) = (if unlinkSync_error e p = None then fs s - {p} else fs s)"
  by (auto simp add: cleanup_file_def unlinkSync_def called_def Let_def split: option.splits)

lemma cleanup_file_calls:
  "\<exists>cs. calls (cleanup_file e s p) = calls s @ cs \<and> set cs \<subseteq> {ExistsSync p, UnlinkSync p}"
  by (auto simp add: cleanup_file_def unlinkSync_def called_def Let_def split: option.splits)

lemma foldl_cleanup_sent: "sent (foldl (cleanup_file e) s ps) = sent s"
  by (induction ps arbitrary: s) (simp_all add: cleanup_file_sent)

lemma foldl_cleanup_log: "console_out (foldl (cleanup_file e) s ps) = console_out s"
  by (induction ps arbitrary: s) (simp_all add: cleanup_file_log)

lemma foldl_cleanup_tempFiles: "tempFiles (foldl (cleanup_file e) s ps) = tempFiles s"
  by (induction ps arbitrary: s) (simp_all add: cleanup_file_tempFiles)

lemma foldl_cleanup_fs:
  "fs (foldl (cleanup_file e) s ps) = fs s - {p \<in> set ps. unlinkSync_error e p = None}"
proof (induction ps arbitrary: s)
  case Nil
  show ?case by simp
next
  case (Cons p ps)
  show ?case
    by (auto simp add: Cons.IH cleanup_file_fs)
qed

lemma foldl_cleanup_calls:
  "\<exists>cs. calls (foldl (cleanup_file e) s ps) = calls s @ cs
        \<and> set cs \<subseteq> ExistsSync ` set ps \<union> UnlinkSync ` set ps"
proof (induction ps arbitrary: s)
  case Nil
  show ?case by simp
next
  case (Cons p ps)
  obtain c1 where c1: "calls (cleanup_file e s p) = calls s @ c1"
      "set c1 \<subseteq> {ExistsSync p, UnlinkSync p}"
    using cleanup_file_calls by blast
  obtain c2 where c2: "calls (foldl (cleanup_file e) (cleanup_file e s p) ps)
        = calls (cleanup_file e s p) @ c2"
      "set c2 \<subseteq> ExistsSync ` set ps \<union> UnlinkSync ` set ps"
    using Cons.IH by blast
  have "calls (foldl (cleanup_file e) s (p # ps)) = calls s @ (c1 @ c2)"
    using c1 c2 by simp
  moreover have "set (c1 @ c2) \<subseteq> ExistsSync ` set (p # ps) \<union> UnlinkSync ` set (p # ps)"
    using c1 c2 by auto
  ultimately show ?case by blast
qed

lemma finally_sent [simp]: "sent (finally_block e s) = sent s"
  by (simp add: finally_block_def foldl_cleanup_sent)

lemma finally_log [simp]: "console_out (finally_block e s) = console_out s"
  by (simp add: finally_block_def foldl_cleanup_log)

lemma finally_tempFiles [simp]: "tempFiles (finally_block e s) = tempFiles s"
  by (simp add: finally_block_def foldl_cleanup_tempFiles)

lemma finally_fs:
  "fs (finally_block e s) = fs s - {p \<in> set (tempFiles s). unlinkSync_error e p = None}"
  by (simp add: finally_block_def foldl_cleanup_fs)

lemma finally_calls_Transcribe [simp]:
  "Transcribe a \<in> set (calls (finally_block e s)) \<longleftrightarrow> Transcribe a \<in> set (calls s)"
proof -
  obtain cs where "calls (finally_block e s) = calls s @ cs"
      "set cs \<subseteq> ExistsSync ` set (tempFiles s) \<union> UnlinkSync ` set (tempFiles s)"
    unfolding finally_block_def using foldl_cleanup_calls by blast
  then show ?thesis by auto
qed

lemma cleanup_file_calls_mono:
  "set (calls s) \<subseteq> set (calls (cleanup_file e s p)) \<and> ExistsSync p \<in> set (calls (cleanup_file e s p))"
  by (auto simp add: cleanup_file_def unlinkSync_def called_def Let_def split: option.splits)

lemma foldl_cleanup_calls_mono:
  "set (calls s) \<subseteq> set (calls (foldl (cleanup_file e) s ps))"
proof (induction ps arbitrary: s)
  case Nil
  show ?case by simp
next
  case (Cons p ps)
  have "set (calls s) \<subseteq> set (calls (cleanup_file e s p))"
    using cleanup_file_calls_mono by blast
  also have "\<dots> \<subseteq> set (calls (foldl (cleanup_file e) (cleanup_file e s p) ps))"
    by (rule Cons.IH)
  finally show ?case by simp
qed

lemma foldl_cleanup_visits_all:
  "ExistsSync ` set ps \<subseteq> set (calls (foldl (cleanup_file e) s ps))"
proof (induction ps arbitrary: s)
  case Nil
  show ?case by simp
next
  case (Cons p ps)
  have "ExistsSync p \<in> set (calls (cleanup_file e s p))"
    using cleanup_file_calls_mono by blast
  then have "ExistsSync p \<in> set (calls (foldl (cleanup_file e) (cleanup_file e s p) ps))"
    using foldl_cleanup_calls_mono by blast
  then show ?case using Cons.IH [of "cleanup_file e s p"] by simp
qed

subsection \<open>Names of converted files\<close>

text \<open>Different clock readings give different converted paths, equal readings the same.\<close>

lemma digit_char_inj: "a < 10 \<Longrightarrow> b < 10 \<Longrightarrow> digit_char a = digit_char b \<Longrightarrow> a = b"
proof -
  assume "a < 10" "b < 10" "digit_char a = digit_char b"
  moreover have "\<forall>a<10. \<forall>b<10. digit_char a = digit_char b \<longrightarrow> a = (b::nat)"
    unfolding digit_char_def by (simp add: eval_nat_numeral All_less_Suc nth_Cons')
  ultimately show ?thesis by blast
qed

lemma show_nat_nonempty: "show_nat n \<noteq> []"
  by (subst show_nat.simps) simp

lemma show_nat_inj: "show_nat m = show_nat n \<Longrightarrow> m = n"
proof (induction m arbitrary: n rule: show_nat.induct)
  case (1 m)
  show ?case
  proof (cases "m < 10")
    case True
    then have m: "show_nat m = [digit_char m]" by (subst show_nat.simps) simp
    show ?thesis
    proof (cases "n < 10")
      case True
      then have "show_nat n = [digit_char n]" by (subst show_nat.simps) simp
      with m "1.prems" have "digit_char m = digit_char n" by simp
      with \<open>m < 10\<close> \<open>n < 10\<close> show ?thesis by (rule digit_char_inj)
    next
      case False
      then have "show_nat n = show_nat (n div 10) @ [digit_char (n mod 10)]"
        by (subst show_nat.simps) simp
      with m "1.prems" show_nat_nonempty [of "n div 10"] show ?thesis by simp
    qed
  next
    case False
    then have m: "show_nat m = show_nat (m div 10) @ [digit_char (m mod 10)]"
      by (subst show_nat.simps) simp
    show ?thesis
    proof (cases "n < 10")
      case True
      then have "show_nat n = [digit_char n]" by (subst show_nat.simps) simp
      with m "1.prems" show_nat_nonempty [of "m div 10"] show ?thesis by simp
    next
      case n: False
      then have "show_nat n = show_nat (n div 10) @ [digit_char (n mod 10)]"
        by (subst show_nat.simps) simp
      with m "1.prems" have eq: "show_nat (m div 10) = show_nat (n div 10)"
          "digit_char (m mod 10) = digit_char (n mod 10)" by simp_all
      from "1.IH" [OF False eq(1)] have d: "m div 10 = n div 10" .
      have "m mod 10 = n mod 10"
        using eq(2) by (intro digit_char_inj) simp_all
      with d show ?thesis by (metis div_mult_mod_eq)
    qed
  qed
qed

lemma wavFilePath_eq_iff: "wavFilePath t = wavFilePath t' \<longleftrightarrow> t = t'"
  by (auto simp add: wavFilePath_def path_join_def dest: show_nat_inj)

subsection \<open>The states of a run\<close>

lemma run_snapshots:
  "list_all (\<lambda>(l, s).
       fs s - files \<subseteq> set (tempFiles s)
     \<and> (\<forall>f. req_file req = Some f \<and> l \<noteq> L66 \<and> l \<noteq> L73 \<longrightarrow> fpath f \<in> set (tempFiles s))
     \<and> (l = L83 \<longrightarrow> wavFilePath (now e) \<in> set (tempFiles s) \<and> fs s = files \<and> calls s = [])
     \<and> (l = L104 \<longrightarrow> (\<exists>f. req_file req = Some f \<and> tempFiles s = [fpath f, wavFilePath (now e)])))
     (run e req files)"
proof (cases "req_file req")
  case None
  then show ?thesis
    by (simp add: pipeline_defs finally_fs)
next
  case (Some f)
  then show ?thesis
    by (simp add: pipeline_defs finally_fs
        split: ffmpeg_result.splits sum.splits option.splits) blast
qed

subsection \<open>The handler as a whole\<close>

lemma handler_tempFiles:
  "tempFiles (transcribe_handler e req files)
     = (case req_file req of None \<Rightarrow> [] | Some f \<Rightarrow> [fpath f, wavFilePath (now e)])"
proof (cases "req_file req")
  case None
  then show ?thesis by (simp add: pipeline_defs)
next
  case (Some f)
  then show ?thesis
    by (simp add: pipeline_defs split: ffmpeg_result.splits sum.splits option.splits)
qed

lemma handler_fs:
  "fs (transcribe_handler e req files)
     = files - {p \<in> set (tempFiles (transcribe_handler e req files)). unlinkSync_error e p = None}
   \<or> (req_file req \<noteq> None \<and> fs (transcribe_handler e req files)
       = insert (wavFilePath (now e)) files
         - {p \<in> set (tempFiles (transcribe_handler e req files)). unlinkSync_error e p = None})"
proof (cases "req_file req")
  case None
  then show ?thesis by (simp add: pipeline_defs finally_fs)
next
  case (Some f)
  then show ?thesis
    by (simp add: pipeline_defs finally_fs split: ffmpeg_result.splits sum.splits option.splits)
qed

lemma handler_missing_file:
  "sent (transcribe_handler e \<lparr>req_file = None\<rparr> files)
       = Some \<lparr>status = 400, body = [(''error'', ''No audio file provided'')]\<rparr>
   \<and> map fst (run e \<lparr>req_file = None\<rparr> files) = [L66, L70, L111]
   \<and> calls (transcribe_handler e \<lparr>req_file = None\<rparr> files) = []
   \<and> fs (transcribe_handler e \<lparr>req_file = None\<rparr> files) = files"
  by (simp add: handler_defs)

subsection \<open>The upload middleware\<close>

lemma single_text_only:
  "\<forall>p \<in> set form. \<exists>k v. p = TextPart k v \<Longrightarrow> single name generated stored form = Inr stored"
  by (induction form) auto

section \<open>Claims\<close>

text \<open>
  C9. GET /health answers HTTP 200 with the body \<open>{"status": "ok", "model": "whisper-tiny.en"}\<close>
  whatever the request and whatever the state of the model variable, loaded or not; the
  model identifier is the same string on every call.
\<close>

theorem health_always_ok:
  "health_handler e req = \<lparr>status = 200, body = [(''status'', ''ok''), (''model'', ''whisper-tiny.en'')]\<rparr>
   \<and> health_handler e req = health_handler e' req'"
  by (simp add: health_handler_def)

text \<open>
  C5 at a form whose only file is under the field \<open>file\<close>, so that there is no file under
  \<open>audio\<close>: the upload middleware passes an error on, the handler and its answer of line 70
  are skipped, and the route answers with the built-in error page, status 500.
\<close>

theorem other_field_not_400:
  "filter (\<lambda>p. case p of FilePart field orig bytes \<Rightarrow> field = ''audio'' | TextPart k v \<Rightarrow> False)
      form_other_field = []
   \<and> post_transcribe env_ok ''ab12'' form_other_field {} = DefaultErrorPage 500"
  by (simp add: form_other_field_def post_transcribe_def builtin_error_status_def)

text \<open>
  The part of C5 that the handler decides. A form without any file part reaches the handler
  with \<open>req.file\<close> undefined and is answered with HTTP 400 and the body
  \<open>{"error": "No audio file provided"}\<close>. The handler goes from line 66 to line 70 and then
  to the cleanup: no conversion, read, decode or inference call is made (no outside call at
  all) and the files on disk are unchanged.
\<close>

theorem missing_file_rejected:
  assumes "\<forall>p \<in> set form. \<exists>k v. p = TextPart k v"
  shows "post_transcribe e generated form files
           = Handled (transcribe_handler e \<lparr>req_file = None\<rparr> files)
       \<and> sent (transcribe_handler e \<lparr>req_file = None\<rparr> files)
           = Some \<lparr>status = 400, body = [(''error'', ''No audio file provided'')]\<rparr>
       \<and> map fst (run e \<lparr>req_file = None\<rparr> files) = [L66, L70, L111]
       \<and> calls (transcribe_handler e \<lparr>req_file = None\<rparr> files) = []
       \<and> fs (transcribe_handler e \<lparr>req_file = None\<rparr> files) = files"
  using single_text_only [OF assms, of "''audio''" generated None] handler_missing_file [of e files]
  by (simp add: post_transcribe_def)

text \<open>The theorem at a form with one text field.\<close>

theorem missing_file_rejected_witness:
  "form_text_only = [TextPart ''language'' ''en'']
   \<and> post_transcribe env_ok ''ab12'' form_text_only {}
       = Handled (transcribe_handler env_ok \<lparr>req_file = None\<rparr> {})
   \<and> sent (transcribe_handler env_ok \<lparr>req_file = None\<rparr> {})
       = Some \<lparr>status = 400, body = [(''error'', ''No audio file provided'')]\<rparr>
   \<and> calls (transcribe_handler env_ok \<lparr>req_file = None\<rparr> {}) = []"
proof -
  have h: "\<forall>p \<in> set form_text_only. \<exists>k v. p = TextPart k v"
    by (simp add: form_text_only_def)
  show ?thesis
    using missing_file_rejected [OF h, of env_ok "''ab12''" "{}"] by (simp add: form_text_only_def)
qed

text \<open>
  C4. When a file was uploaded and the conversion, the WAV decoding or the model call throws
  an error \<open>err\<close>, the response is HTTP 500 with the body \<open>{"error": err.message}\<close>.
\<close>

theorem stage_failure_answers_500:
  assumes "req_file req = Some f"
    and "(\<exists>left. ffmpeg_exec e (convert_command (fpath f) (wavFilePath (now e))) = Error err left)
       \<or> (ffmpeg_exec e (convert_command (fpath f) (wavFilePath (now e))) = End
          \<and> ((\<exists>wavBuffer. readFileSync e (wavFilePath (now e)) = Inr wavBuffer
                \<and> wav_decode e wavBuffer = Inl err)
             \<or> (\<exists>wavBuffer channelData model.
                  readFileSync e (wavFilePath (now e)) = Inr wavBuffer
                \<and> wav_decode e wavBuffer = Inr channelData
                \<and> transcriber e = Some model
                \<and> model (case channelData of [] \<Rightarrow> None | c # _ \<Rightarrow> Some c) = Inl err)))"
  shows "sent (transcribe_handler e req files)
           = Some \<lparr>status = 500, body = [(''error'', message err)]\<rparr>"
  using assms by (auto simp add: pipeline_defs)

text \<open>The theorem at a corrupted upload on which the transcoder fails.\<close>

theorem stage_failure_answers_500_witness:
  "req_file req_a = Some upload_a
   \<and> ffmpeg_exec env_conv_fail (convert_command (fpath upload_a) (wavFilePath (now env_conv_fail)))
       = Error (JsError ''ffmpeg exited with code 1'') True
   \<and> sent (transcribe_handler env_conv_fail req_a {''uploads/ab12''})
       = Some \<lparr>status = 500, body = [(''error'', ''ffmpeg exited with code 1'')]\<rparr>"
proof -
  have h1: "req_file req_a = Some upload_a"
    by (simp add: req_a_def)
  have h2: "ffmpeg_exec env_conv_fail (convert_command (fpath upload_a) (wavFilePath (now env_conv_fail)))
       = Error (JsError ''ffmpeg exited with code 1'') True"
    by (simp add: env_conv_fail_def)
  from h2 have h3: "\<exists>left. ffmpeg_exec env_conv_fail
       (convert_command (fpath upload_a) (wavFilePath (now env_conv_fail)))
       = Error (JsError ''ffmpeg exited with code 1'') left"
    by blast
  show ?thesis
    using h1 h2 stage_failure_answers_500 [OF h1 disjI1, OF h3, of "{''uploads/ab12''}"] by simp
qed




text \<open>
  C6. \<open>convertAudioToWav\<close> starts the transcoder exactly once, on the given input, with
  channel count 1, sample rate 16000, codec \<open>pcm_s16le\<close>, container format \<open>wav\<close>, writing
  to the given output path; when the transcoder ends normally the promise resolves with
  that output path and the output file exists.
\<close>

theorem convertAudioToWav_command:
  "calls (snd (convertAudioToWav e inputPath outputPath s))
     = calls s @ [FfmpegRun \<lparr>cmd_input = inputPath, cmd_audioChannels = Some 1,
         cmd_audioFrequency = Some 16000, cmd_audioCodec = Some ''pcm_s16le'',
         cmd_format = Some ''wav'', cmd_output = Some outputPath\<rparr>]
   \<and> (ffmpeg_exec e \<lparr>cmd_input = inputPath, cmd_audioChannels = Some 1,
         cmd_audioFrequency = Some 16000, cmd_audioCodec = Some ''pcm_s16le'',
         cmd_format = Some ''wav'', cmd_output = Some outputPath\<rparr> = End
        \<longrightarrow> fst (convertAudioToWav e inputPath outputPath s) = Inr outputPath
            \<and> outputPath \<in> fs (snd (convertAudioToWav e inputPath outputPath s)))"
  by (simp add: convertAudioToWav_def convert_command_def ffmpeg_def audioChannels_def
      audioFrequency_def audioCodec_def format_def save_def called_def Let_def
      split: ffmpeg_result.splits)

text \<open>The theorem at an upload converted by a transcoder that ends normally.\<close>

theorem convertAudioToWav_command_witness:
  "ffmpeg_exec env_ok \<lparr>cmd_input = ''uploads/ab12'', cmd_audioChannels = Some 1,
       cmd_audioFrequency = Some 16000, cmd_audioCodec = Some ''pcm_s16le'',
       cmd_format = Some ''wav'', cmd_output = Some ''uploads/converted_42.wav''\<rparr> = End
   \<and> calls (snd (convertAudioToWav env_ok ''uploads/ab12'' ''uploads/converted_42.wav''
        (entry {''uploads/ab12''})))
     = [FfmpegRun \<lparr>cmd_input = ''uploads/ab12'', cmd_audioChannels = Some 1,
         cmd_audioFrequency = Some 16000, cmd_audioCodec = Some ''pcm_s16le'',
         cmd_format = Some ''wav'', cmd_output = Some ''uploads/converted_42.wav''\<rparr>]
   \<and> fst (convertAudioToWav env_ok ''uploads/ab12'' ''uploads/converted_42.wav''
        (entry {''uploads/ab12''})) = Inr ''uploads/converted_42.wav''
   \<and> ''uploads/converted_42.wav'' \<in> fs (snd (convertAudioToWav env_ok ''uploads/ab12''
        ''uploads/converted_42.wav'' (entry {''uploads/ab12''})))"
proof -
  have h: "ffmpeg_exec env_ok \<lparr>cmd_input = ''uploads/ab12'', cmd_audioChannels = Some 1,
       cmd_audioFrequency = Some 16000, cmd_audioCodec = Some ''pcm_s16le'',
       cmd_format = Some ''wav'', cmd_output = Some ''uploads/converted_42.wav''\<rparr> = End"
    by (simp add: env_ok_def)
  show ?thesis
    using h convertAudioToWav_command [of env_ok "''uploads/ab12''" "''uploads/converted_42.wav''"
        "entry {''uploads/ab12''}"]
    by (simp add: entry_def)
qed

text \<open>
  C1, as amended. On every path through the handler the recorded files are the upload and
  the converted file (none for a request without a file), and each recorded file for which
  \<open>unlinkSync\<close> does not throw is gone when the handler exits, whatever happens to the
  other one. The only file that can be left which was not on disk at entry is the converted
  file, when its deletion throws; nothing but recorded files is deleted; and a file whose
  deletion throws stays.
\<close>

theorem cleanup_deletes_temp_files:
  "tempFiles (transcribe_handler e req files)
     = (case req_file req of None \<Rightarrow> [] | Some f \<Rightarrow> [fpath f, wavFilePath (now e)])
   \<and> (\<forall>p \<in> set (tempFiles (transcribe_handler e req files)).
         unlinkSync_error e p = None \<longrightarrow> p \<notin> fs (transcribe_handler e req files))
   \<and> fs (transcribe_handler e req files) - files
       \<subseteq> {p. p = wavFilePath (now e) \<and> unlinkSync_error e p \<noteq> None}
   \<and> files - fs (transcribe_handler e req files) \<subseteq> set (tempFiles (transcribe_handler e req files))
   \<and> {p \<in> files. unlinkSync_error e p \<noteq> None} \<subseteq> fs (transcribe_handler e req files)"
proof -
  define T where "T = tempFiles (transcribe_handler e req files)"
  define F where "F = fs (transcribe_handler e req files)"
  define D where "D = {p \<in> set T. unlinkSync_error e p = None}"
  have t: "T = (case req_file req of None \<Rightarrow> [] | Some f \<Rightarrow> [fpath f, wavFilePath (now e)])"
    unfolding T_def by (rule handler_tempFiles)
  have d: "F = files - D \<or> (req_file req \<noteq> None \<and> F = insert (wavFilePath (now e)) files - D)"
    unfolding F_def D_def T_def by (rule handler_fs)
  have w: "req_file req \<noteq> None \<Longrightarrow> wavFilePath (now e) \<in> set T"
    using t by (cases "req_file req") simp_all
  have c2: "\<forall>p \<in> set T. unlinkSync_error e p = None \<longrightarrow> p \<notin> F"
    using d unfolding D_def by auto
  have c3: "F - files \<subseteq> {p. p = wavFilePath (now e) \<and> unlinkSync_error e p \<noteq> None}"
  proof
    fix x assume x: "x \<in> F - files"
    with d have r: "req_file req \<noteq> None" and f: "F = insert (wavFilePath (now e)) files - D"
      by blast+
    from x f have "x = wavFilePath (now e)" and "x \<notin> D" by blast+
    with w [OF r] show "x \<in> {p. p = wavFilePath (now e) \<and> unlinkSync_error e p \<noteq> None}"
      by (simp add: D_def)
  qed
  have c4: "files - F \<subseteq> set T"
    using d unfolding D_def by auto
  have c5: "{p \<in> files. unlinkSync_error e p \<noteq> None} \<subseteq> F"
    using d unfolding D_def by auto
  show ?thesis
    using t c2 c3 c4 c5 unfolding T_def F_def by simp
qed

text \<open>
  The theorem at a run in which deleting the upload throws and deleting the converted file
  does not: the converted file is gone, the upload remains.
\<close>

theorem cleanup_deletes_temp_files_witness:
  "unlinkSync_error env_upload_locked ''uploads/converted_1700000000000.wav'' = None
   \<and> ''uploads/converted_1700000000000.wav'' \<notin> fs (transcribe_handler env_upload_locked req_a {''uploads/ab12''})
   \<and> unlinkSync_error env_upload_locked ''uploads/ab12'' \<noteq> None
   \<and> ''uploads/ab12'' \<in> fs (transcribe_handler env_upload_locked req_a {''uploads/ab12''})"
proof -
  have w: "wavFilePath (now env_upload_locked) = ''uploads/converted_1700000000000.wav''"
    by (simp add: example_defs path_defs)
  have u: "unlinkSync_error env_upload_locked ''uploads/converted_1700000000000.wav'' = None"
      "unlinkSync_error env_upload_locked ''uploads/ab12'' \<noteq> None"
    by (simp_all add: example_defs)
  have r: "req_file req_a = Some upload_a"
    by (simp add: req_a_def)
  note c = cleanup_deletes_temp_files [of env_upload_locked req_a "{''uploads/ab12''}"]
  from c have t: "tempFiles (transcribe_handler env_upload_locked req_a {''uploads/ab12''})
      = [fpath upload_a, ''uploads/converted_1700000000000.wav'']"
    by (simp add: r w)
  from c have "\<forall>p \<in> set (tempFiles (transcribe_handler env_upload_locked req_a {''uploads/ab12''})).
         unlinkSync_error env_upload_locked p = None
         \<longrightarrow> p \<notin> fs (transcribe_handler env_upload_locked req_a {''uploads/ab12''})"
    by blast
  with t u have gone: "''uploads/converted_1700000000000.wav''
      \<notin> fs (transcribe_handler env_upload_locked req_a {''uploads/ab12''})"
    by simp
  from c have "{p \<in> {''uploads/ab12''}. unlinkSync_error env_upload_locked p \<noteq> None}
      \<subseteq> fs (transcribe_handler env_upload_locked req_a {''uploads/ab12''})"
    by blast
  with u have kept: "''uploads/ab12'' \<in> fs (transcribe_handler env_upload_locked req_a {''uploads/ab12''})"
    by blast
  show ?thesis using u gone kept by simp
qed

text \<open>
  C1 as stated fails when deleting throws: the error is discarded by the empty \<open>catch\<close> of
  line 110 and the upload is still on disk when the handler exits.
\<close>

theorem undeletable_file_remains:
  "''uploads/ab12'' \<in> fs (transcribe_handler env_eperm req_a {''uploads/ab12''})"
  by (simp add: handler_defs example_defs)

text \<open>
  C8, as amended. An error thrown by \<open>unlinkSync\<close> during cleanup is discarded: the cleanup
  writes nothing to the console and does not touch the response, and it still visits every
  recorded file. Console output and response of the whole handler are the same whatever
  errors the deletions throw.
\<close>

theorem cleanup_errors_discarded:
  "console_out (finally_block e s) = console_out s
   \<and> sent (finally_block e s) = sent s
   \<and> ExistsSync ` set (tempFiles s) \<subseteq> set (calls (finally_block e s))
   \<and> console_out (transcribe_handler (e\<lparr>unlinkSync_error := u\<rparr>) req files)
       = console_out (transcribe_handler e req files)
   \<and> sent (transcribe_handler (e\<lparr>unlinkSync_error := u\<rparr>) req files)
       = sent (transcribe_handler e req files)"
proof -
  have a: "ExistsSync ` set (tempFiles s) \<subseteq> set (calls (finally_block e s))"
    by (simp add: finally_block_def foldl_cleanup_visits_all)
  have b: "console_out (transcribe_handler (e\<lparr>unlinkSync_error := u\<rparr>) req files)
       = console_out (transcribe_handler e req files)"
    by (simp add: pipeline_defs
        split: option.splits ffmpeg_result.splits sum.splits list.splits)
  have c: "sent (transcribe_handler (e\<lparr>unlinkSync_error := u\<rparr>) req files)
       = sent (transcribe_handler e req files)"
    by (simp add: pipeline_defs
        split: option.splits ffmpeg_result.splits sum.splits list.splits)
  show ?thesis using a b c by simp
qed

text \<open>
  C8 as stated fails: deleting the upload throws, and the console holds the three
  messages of a successful transcription and no entry for the error.
\<close>

theorem unlink_error_not_logged:
  "unlinkSync_error env_eperm ''uploads/ab12'' = Some (JsError ''EPERM: operation not permitted'')
   \<and> UnlinkSync ''uploads/ab12'' \<in> set (calls (transcribe_handler env_eperm req_a {''uploads/ab12''}))
   \<and> console_out (transcribe_handler env_eperm req_a {''uploads/ab12''})
       = [LogReceived ''a.mp3'' 3, LogTranscribing, LogTranscription ''hello'']"
  by (simp add: handler_defs example_defs)

text \<open>
  C7 at two different uploads whose handlers read the same value of \<open>Date.now()\<close>: both
  get the converted path \<open>uploads/converted_1700000000000.wav\<close>, and the cleanup of the first
  deletes a file that is on disk at that path when it starts (the other request's output).
\<close>

theorem same_millisecond_same_wav_path:
  "req_a \<noteq> req_b
   \<and> tempFiles (transcribe_handler env_ok req_a {''uploads/ab12'', ''uploads/cd34''})
       = [''uploads/ab12'', ''uploads/converted_1700000000000.wav'']
   \<and> tempFiles (transcribe_handler env_ok req_b {''uploads/ab12'', ''uploads/cd34''})
       = [''uploads/cd34'', ''uploads/converted_1700000000000.wav'']
   \<and> fs (transcribe_handler env_ok req_a
           {''uploads/ab12'', ''uploads/cd34'', ''uploads/converted_1700000000000.wav''})
       = {''uploads/cd34''}"
  by (simp add: handler_defs example_defs path_defs insert_Diff_if)

text \<open>
  C10, as amended. At every point of a run: each file that has come to exist since handler
  entry is in \<open>tempFiles\<close>; from line 76 on the upload path is in \<open>tempFiles\<close>; when line 83
  has run, the converted path is recorded while no outside call has been made and the disk
  is as at entry; and when the \<open>catch\<close> block runs, \<open>tempFiles\<close> holds both paths.
\<close>

theorem temp_files_recorded:
  assumes "(l, s) \<in> set (run e req files)"
  shows "fs s - files \<subseteq> set (tempFiles s)
       \<and> (\<forall>f. req_file req = Some f \<and> l \<noteq> L66 \<and> l \<noteq> L73 \<longrightarrow> fpath f \<in> set (tempFiles s))
       \<and> (l = L83 \<longrightarrow> wavFilePath (now e) \<in> set (tempFiles s) \<and> fs s = files \<and> calls s = [])
       \<and> (l = L104 \<longrightarrow> (\<exists>f. req_file req = Some f \<and> tempFiles s = [fpath f, wavFilePath (now e)]))"
  using run_snapshots [of files req e] assms unfolding list_all_iff by fastforce

text \<open>The theorem at the failure point of a conversion that left a partial output file.\<close>

theorem temp_files_recorded_witness:
  "(L104, snd (run env_conv_fail req_a {''uploads/ab12''} ! 5))
      \<in> set (run env_conv_fail req_a {''uploads/ab12''})
   \<and> req_file req_a = Some upload_a
   \<and> fs (snd (run env_conv_fail req_a {''uploads/ab12''} ! 5)) - {''uploads/ab12''}
       \<subseteq> set (tempFiles (snd (run env_conv_fail req_a {''uploads/ab12''} ! 5)))
   \<and> tempFiles (snd (run env_conv_fail req_a {''uploads/ab12''} ! 5))
       = [fpath upload_a, wavFilePath (now env_conv_fail)]"
proof -
  have m: "(L104, snd (run env_conv_fail req_a {''uploads/ab12''} ! 5))
      \<in> set (run env_conv_fail req_a {''uploads/ab12''})"
    by (simp add: pipeline_defs example_defs)
  have f: "req_file req_a = Some upload_a"
    by (simp add: req_a_def)
  show ?thesis
    using m f temp_files_recorded [OF m] by auto
qed

text \<open>
  C10 as stated fails for the upload: when the handler starts (line 66) the upload
  middleware has already written the file, and \<open>tempFiles\<close> is still empty.
\<close>

theorem upload_exists_before_recorded:
  "run env_ok req_a {''uploads/ab12''} ! 0 = (L66, entry {''uploads/ab12''})
   \<and> fpath upload_a \<in> fs (entry {''uploads/ab12''})
   \<and> fpath upload_a \<notin> set (tempFiles (entry {''uploads/ab12''}))"
  by (simp add: pipeline_defs example_defs)

text \<open>
  C2 at an upload of one byte more than the limit of line 23 (20 MiB): the upload middleware
  passes \<open>LIMIT_FILE_SIZE\<close> on, the handler is skipped, and the route answers with the
  built-in error page, status 500, not with 400 or 413 and a JSON body.
\<close>

theorem oversized_upload_answer:
  "fileSize = 20971520
   \<and> form_too_large = [FilePart ''audio'' ''big.wav'' (fileSize + 1)]
   \<and> post_transcribe env_ok ''ab12'' form_too_large {} = DefaultErrorPage 500"
  by (simp add: form_too_large_def post_transcribe_def builtin_error_status_def fileSize_def)

end
